theory Spec2Isabelle
  imports Complex_Main "HOL-Library.Word"
begin

unbundle bit_operations_syntax

section \<open>Data model\<close>

text \<open>
  The renderer core of \<^verbatim>\<open>src/chunk-67ULRFHS.js\<close>. JavaScript objects are mutable and
  compared by identity, so an object is a reference (a number) and its fields live in the
  state that the functions pass along. A method call on an object whose code is in another
  chunk is an event of the trace, or a parameter of the model.
\<close>

type_synonym objref = nat

datatype error =
    Whoops string \<comment> \<open>\<^verbatim>\<open>new Error(`Whoops! The name "${r}" is already in use`)\<close>\<close>
  | TypeError \<comment> \<open>a property read on \<^verbatim>\<open>null\<close> or \<^verbatim>\<open>undefined\<close>\<close>
  | HandlerError string \<comment> \<open>whatever a handler of another chunk throws\<close>
  | OutOfFuel \<comment> \<open>not an error of the source: the bound on a recursion of the model ran out\<close>

subsection \<open>Runner (class \<^verbatim>\<open>I\<close>)\<close>

record runner =
  r_name :: string
  items :: "objref list"




text \<open>
  \<^verbatim>\<open>emit(...){let{name:d,items:h}=this;for(let f=0,x=h.length;f<x;f++)h[f][d](...);return this}\<close>.
  \<open>I_emit_calls\<close> is the sequence of method calls the loop makes; \<open>I_emit\<close> runs them on
  a world \<open>'w\<close>, a throwing handler ending the loop.
\<close>

definition I_emit_calls :: "runner \<Rightarrow> (objref \<times> string) list" where
  "I_emit_calls r = map (\<lambda>h. (h, r_name r)) (items r)"

fun run_calls ::
  "(objref \<Rightarrow> string \<Rightarrow> 'a \<Rightarrow> 'w \<Rightarrow> error + 'w) \<Rightarrow> (objref \<times> string) list \<Rightarrow> 'a \<Rightarrow> 'w \<Rightarrow> error + 'w"
where
  "run_calls call [] a w = Inr w"
| "run_calls call ((h, d) # cs) a w =
     (case call h d a w of Inl e \<Rightarrow> Inl e | Inr w' \<Rightarrow> run_calls call cs a w')"

definition I_emit ::
  "(objref \<Rightarrow> string \<Rightarrow> 'a \<Rightarrow> 'w \<Rightarrow> error + 'w) \<Rightarrow> runner \<Rightarrow> 'a \<Rightarrow> 'w \<Rightarrow> error + 'w"
where
  "I_emit call r a w = run_calls call (I_emit_calls r) a w"

subsection \<open>Instruction sets\<close>

text \<open>
  What the batcher pipe hands to a batcher: the GPU record of a renderable, the name of
  the batcher that draws it (\<^verbatim>\<open>e.batcherName\<close>) and its texture.
\<close>

record batchable =
  b_ref :: objref
  batcherName :: string
  b_texture :: objref

datatype stencil_action = pushMaskBegin | pushMaskEnd | popMaskBegin | popMaskEnd

text \<open>
  The instructions this chunk builds: a batch (added by a batcher's \<^verbatim>\<open>break\<close>),
  \<^verbatim>\<open>{renderPipeId:"colorMask",colorMask:a,canBundle:!1}\<close> (\<open>None\<close> is
  \<^verbatim>\<open>undefined\<close>) and \<^verbatim>\<open>{renderPipeId:"stencilMask",action:...,inverse:...}\<close>.
\<close>

datatype instruction =
    Batch string "batchable list"
  | ColorMaskInstr "32 word option"
  | StencilMaskInstr stencil_action bool
  | OtherInstr string

record instructionSet =
  is_uid :: objref
  instructions :: "instruction list"

text \<open>
  Modelled from the spec: the InstructionSet class is in another chunk; the spec has it as
  "the flattened, ordered list of opcodes". \<^verbatim>\<open>add\<close> appends an instruction; the list
  here is the part below \<^verbatim>\<open>instructionSize\<close>.
\<close>

definition IS_add :: "instructionSet \<Rightarrow> instruction \<Rightarrow> instructionSet" where
  "IS_add s i = s\<lparr>instructions := instructions s @ [i]\<rparr>"

subsection \<open>Batcher pipe (class \<^verbatim>\<open>Ue\<close>)\<close>

record batcher =
  b_name :: string
  b_maxTextures :: nat
  b_elements :: "batchable list" \<comment> \<open>added since the last break\<close>

text \<open>
  Modelled from the spec: the batcher classes (\<^verbatim>\<open>Pe\<close> and those registered in
  \<^verbatim>\<open>_availableBatchers\<close>) are in another chunk. By the spec a batch is "a contiguous run
  of geometry sharing draw state", \<^verbatim>\<open>add\<close> "appends geometry to the currently active
  batch", \<^verbatim>\<open>break\<close> "closes the current batch" and "emits a start new batch
  instruction", a batch type is "looked up by name, lazily instantiated", and
  "texture-slot assignment within a batch is bounded by a maximum texture-unit count
  reported by the backend; exceeding it forces a batch break". So \<^verbatim>\<open>break\<close> closes what
  was added since the last break, as one batch for as long as the textures fit the bound,
  starting another batch at each element whose texture would exceed it; with nothing added
  there is no run to close and nothing is emitted.
\<close>

text \<open>
  \<open>split_textures n ts cur es\<close>: the batches of \<open>es\<close>, when the batch being filled holds
  \<open>cur\<close> and uses the textures \<open>ts\<close>, under the bound \<open>n\<close>.
\<close>

fun split_textures :: "nat \<Rightarrow> objref list \<Rightarrow> batchable list \<Rightarrow> batchable list \<Rightarrow> batchable list list" where
  "split_textures n ts cur [] = (if cur = [] then [] else [cur])"
| "split_textures n ts cur (e # es) =
     (if b_texture e \<in> set ts then split_textures n ts (cur @ [e]) es
      else if length ts < n then split_textures n (ts @ [b_texture e]) (cur @ [e]) es
      else (if cur = [] then [] else [cur]) @ split_textures n [b_texture e] [e] es)"

definition batcher_begin :: "batcher \<Rightarrow> batcher" where
  "batcher_begin b = b\<lparr>b_elements := []\<rparr>"


definition batcher_break :: "batcher \<Rightarrow> instructionSet \<Rightarrow> batcher \<times> instructionSet" where
  "batcher_break b s =
     (b\<lparr>b_elements := []\<rparr>,
      foldl IS_add s (map (Batch (b_name b)) (split_textures (b_maxTextures b) [] [] (b_elements b))))"

definition getBatcher :: "nat \<Rightarrow> string \<Rightarrow> batcher" where
  "getBatcher n e = \<lparr>b_name = e, b_maxTextures = n, b_elements = []\<rparr>"

text \<open>
  \<^verbatim>\<open>_batchersByInstructionSet\<close> maps the uid of an instruction set to its table of
  batchers by name. \<^verbatim>\<open>_activeBatches\<close> is a reference to one of these tables (its uid
  here, \<open>None\<close> for the empty table of the constructor) and \<^verbatim>\<open>_activeBatch\<close> a reference
  to a batcher of that table (its key here, \<open>None\<close> for \<^verbatim>\<open>undefined\<close>).
\<close>

record Ue_state =
  maxBatchableTextures :: nat \<comment> \<open>\<^verbatim>\<open>this.renderer.limits.maxBatchableTextures\<close>\<close>
  batchersByInstructionSet :: "objref \<Rightarrow> (string \<Rightarrow> batcher option) option"
  activeBatches :: "objref option"
  activeBatch :: "string option"

definition Ue_new :: "nat \<Rightarrow> Ue_state" where
  "Ue_new n = \<lparr>maxBatchableTextures = n, batchersByInstructionSet = (\<lambda>_. None),
              activeBatches = None, activeBatch = None\<rparr>"

text \<open>
  \<^verbatim>\<open>buildStart(e){let t=this._batchersByInstructionSet[e.uid];t||(t=...=Object.create(null),
  t.default||(t.default=new Pe(...))),this._activeBatches=t,this._activeBatch=this._activeBatches.default;
  for(let r in this._activeBatches)this._activeBatches[r].begin()}\<close>
\<close>

definition Ue_buildStart :: "Ue_state \<Rightarrow> instructionSet \<Rightarrow> Ue_state" where
  "Ue_buildStart U e =
     (let t = (case batchersByInstructionSet U (is_uid e) of
                 Some t \<Rightarrow> t
               | None \<Rightarrow> (\<lambda>_. None)(''default'' \<mapsto> getBatcher (maxBatchableTextures U) ''default''));
          t' = (\<lambda>r. map_option batcher_begin (t r))
      in U\<lparr>batchersByInstructionSet := (batchersByInstructionSet U)(is_uid e \<mapsto> t'),
           activeBatches := Some (is_uid e),
           activeBatch := (if t' ''default'' = None then None else Some ''default'')\<rparr>)"

text \<open>The table and the batcher that \<^verbatim>\<open>this._activeBatch\<close> refers to, if any.\<close>

definition Ue_active :: "Ue_state \<Rightarrow> (objref \<times> (string \<Rightarrow> batcher option) \<times> string \<times> batcher) option" where
  "Ue_active U =
     (case activeBatches U of None \<Rightarrow> None
      | Some u \<Rightarrow>
        (case batchersByInstructionSet U u of None \<Rightarrow> None
         | Some t \<Rightarrow>
           (case activeBatch U of None \<Rightarrow> None
            | Some k \<Rightarrow> (case t k of None \<Rightarrow> None | Some b \<Rightarrow> Some (u, t, k, b)))))"

text \<open>\<^verbatim>\<open>break(e){this._activeBatch.break(e)}\<close>\<close>

definition Ue_break :: "Ue_state \<Rightarrow> instructionSet \<Rightarrow> error + (Ue_state \<times> instructionSet)" where
  "Ue_break U e =
     (case Ue_active U of None \<Rightarrow> Inl TypeError
      | Some (u, t, k, b) \<Rightarrow>
          (let (b', e') = batcher_break b e
           in Inr (U\<lparr>batchersByInstructionSet := (batchersByInstructionSet U)(u \<mapsto> t(k \<mapsto> b'))\<rparr>, e')))"







subsection \<open>Color mask pipe (class \<^verbatim>\<open>J\<close>)\<close>

text \<open>
  \<^verbatim>\<open>_colorStack\<close> is a JavaScript array: reading an index that was never written gives
  \<^verbatim>\<open>undefined\<close> (\<open>None\<close>). The masks are 32-bit integers, as \<^verbatim>\<open>&\<close> makes them;
  \<^verbatim>\<open>undefined & m\<close> is \<open>0\<close>.
\<close>

record J_state =
  colorStack :: "int \<Rightarrow> 32 word option"
  colorStackIndex :: int
  currentColor :: "32 word option"

definition js_and :: "32 word option \<Rightarrow> 32 word \<Rightarrow> 32 word" where
  "js_and a m = (case a of None \<Rightarrow> 0 | Some x \<Rightarrow> x) AND m"

text \<open>\<^verbatim>\<open>constructor(e){this._colorStack=[],this._colorStackIndex=0,this._currentColor=0,...}\<close>\<close>

definition J_new :: J_state where
  "J_new = \<lparr>colorStack = (\<lambda>_. None), colorStackIndex = 0, currentColor = Some 0\<rparr>"

text \<open>\<^verbatim>\<open>buildStart(){this._colorStack[0]=15,this._colorStackIndex=1,this._currentColor=15}\<close>\<close>

definition J_buildStart :: "J_state \<Rightarrow> J_state" where
  "J_buildStart J = J\<lparr>colorStack := (colorStack J)(0 := Some 15), colorStackIndex := 1,
                      currentColor := Some 15\<rparr>"

text \<open>
  \<^verbatim>\<open>push(e,t,r){this._renderer.renderPipes.batch.break(r);let i=this._colorStack;
  i[this._colorStackIndex]=i[this._colorStackIndex-1]&e.mask;let a=this._colorStack[this._colorStackIndex];
  a!==this._currentColor&&(this._currentColor=a,r.add({renderPipeId:"colorMask",colorMask:a,canBundle:!1})),
  this._colorStackIndex++}\<close>. The second argument is \<^verbatim>\<open>e.mask\<close>.
\<close>

definition J_push ::
  "J_state \<Rightarrow> 32 word \<Rightarrow> Ue_state \<Rightarrow> instructionSet \<Rightarrow> error + (J_state \<times> Ue_state \<times> instructionSet)"
where
  "J_push J m U r =
     (case Ue_break U r of Inl x \<Rightarrow> Inl x
      | Inr (U1, r1) \<Rightarrow>
          (let n = colorStackIndex J;
               i = (colorStack J)(n := Some (js_and (colorStack J (n - 1)) m));
               a = i n;
               (c, r2) = (if a \<noteq> currentColor J then (a, IS_add r1 (ColorMaskInstr a))
                          else (currentColor J, r1))
           in Inr (J\<lparr>colorStack := i, colorStackIndex := n + 1, currentColor := c\<rparr>, U1, r2)))"

text \<open>
  \<^verbatim>\<open>pop(e,t,r){this._renderer.renderPipes.batch.break(r);let i=this._colorStack;
  this._colorStackIndex--;let a=i[this._colorStackIndex-1];
  a!==this._currentColor&&(this._currentColor=a,r.add({renderPipeId:"colorMask",colorMask:a,canBundle:!1}))}\<close>
\<close>

definition J_pop ::
  "J_state \<Rightarrow> Ue_state \<Rightarrow> instructionSet \<Rightarrow> error + (J_state \<times> Ue_state \<times> instructionSet)"
where
  "J_pop J U r =
     (case Ue_break U r of Inl x \<Rightarrow> Inl x
      | Inr (U1, r1) \<Rightarrow>
          (let n = colorStackIndex J - 1;
               a = colorStack J (n - 1);
               (c, r2) = (if a \<noteq> currentColor J then (a, IS_add r1 (ColorMaskInstr a))
                          else (currentColor J, r1))
           in Inr (J\<lparr>colorStackIndex := n, currentColor := c\<rparr>, U1, r2)))"

text \<open>The color-mask instructions of an instruction list.\<close>

fun colorMasks :: "instruction list \<Rightarrow> 32 word option list" where
  "colorMasks [] = []"
| "colorMasks (ColorMaskInstr a # xs) = a # colorMasks xs"
| "colorMasks (_ # xs) = colorMasks xs"

text \<open>
  A sequence of pushes and pops, as the instruction builder makes them around masked
  subtrees, and the masks that are open after it (oldest first); \<open>None\<close> when a pop finds no open mask.
\<close>

datatype J_op = Push "32 word" | Pop

fun J_run ::
  "J_state \<Rightarrow> J_op list \<Rightarrow> Ue_state \<Rightarrow> instructionSet \<Rightarrow> error + (J_state \<times> Ue_state \<times> instructionSet)"
where
  "J_run J [] U r = Inr (J, U, r)"
| "J_run J (Push m # ops) U r =
     (case J_push J m U r of Inl x \<Rightarrow> Inl x | Inr (J', U', r') \<Rightarrow> J_run J' ops U' r')"
| "J_run J (Pop # ops) U r =
     (case J_pop J U r of Inl x \<Rightarrow> Inl x | Inr (J', U', r') \<Rightarrow> J_run J' ops U' r')"

fun open_masks :: "J_op list \<Rightarrow> 32 word list \<Rightarrow> 32 word list option" where
  "open_masks [] ms = Some ms"
| "open_masks (Push m # ops) ms = open_masks ops (ms @ [m])"
| "open_masks (Pop # ops) ms = (if ms = [] then None else open_masks ops (butlast ms))"

text \<open>
  The stack below the index holds, at position \<open>j\<close>, the conjunction of the full mask 15
  with the first \<open>j\<close> open masks, and the current color is the top.
\<close>

definition J_inv :: "J_state \<Rightarrow> 32 word list \<Rightarrow> bool" where
  "J_inv J ms = (colorStackIndex J = 1 + int (length ms) \<and>
     currentColor J = Some (foldl (AND) 15 ms) \<and>
     (\<forall>j. j \<le> length ms \<longrightarrow> colorStack J (int j) = Some (foldl (AND) 15 (take j ms))))"

subsection \<open>Stencil mask pipe (class \<^verbatim>\<open>Q\<close>), execution\<close>

datatype stencil_mode =
  DISABLED | RENDERING_MASK_ADD | MASK_ACTIVE | INVERSE_MASK_ACTIVE | RENDERING_MASK_REMOVE

text \<open>The calls \<^verbatim>\<open>execute\<close> makes on the systems of the renderer, in order.\<close>

datatype gpu_call =
    EnsureDepthStencil \<comment> \<open>\<^verbatim>\<open>r.renderTarget.ensureDepthStencil()\<close>\<close>
  | SetStencilMode stencil_mode int \<comment> \<open>\<^verbatim>\<open>r.stencil.setStencilMode(mode, i)\<close>\<close>
  | SetMask nat \<comment> \<open>\<^verbatim>\<open>r.colorMask.setMask(n)\<close>\<close>
  | ClearStencil \<comment> \<open>\<^verbatim>\<open>r.renderTarget.clear(null, y.STENCIL)\<close>\<close>

record Q_state =
  maskStackHash :: "objref \<Rightarrow> int option" \<comment> \<open>by render target uid\<close>
  gpu :: "gpu_call list"

text \<open>\<^verbatim>\<open>(t=this._maskStackHash)[s]??(t[s]=0)\<close>\<close>

definition Q_count :: "Q_state \<Rightarrow> objref \<Rightarrow> int" where
  "Q_count Q s = (case maskStackHash Q s of None \<Rightarrow> 0 | Some i \<Rightarrow> i)"

text \<open>
  \<^verbatim>\<open>execute(e)\<close>, with \<open>s\<close> the uid of the current render target
  (\<^verbatim>\<open>r.renderTarget.renderTarget.uid\<close>):
  \<^verbatim>\<open>e.action==="pushMaskBegin"?(r.renderTarget.ensureDepthStencil(),
  r.stencil.setStencilMode(m.RENDERING_MASK_ADD,i),i++,r.colorMask.setMask(0))
  :e.action==="pushMaskEnd"?(e.inverse?r.stencil.setStencilMode(m.INVERSE_MASK_ACTIVE,i)
  :r.stencil.setStencilMode(m.MASK_ACTIVE,i),r.colorMask.setMask(15))
  :e.action==="popMaskBegin"?(r.colorMask.setMask(0),i!==0?r.stencil.setStencilMode(m.RENDERING_MASK_REMOVE,i)
  :(r.renderTarget.clear(null,y.STENCIL),r.stencil.setStencilMode(m.DISABLED,i)),i--)
  :e.action==="popMaskEnd"&&(...same as pushMaskEnd...),this._maskStackHash[s]=i\<close>
\<close>

definition Q_execute :: "objref \<Rightarrow> stencil_action \<times> bool \<Rightarrow> Q_state \<Rightarrow> Q_state" where
  "Q_execute s e Q =
     (let i = Q_count Q s;
          (calls, i') =
            (case fst e of
               pushMaskBegin \<Rightarrow>
                 ([EnsureDepthStencil, SetStencilMode RENDERING_MASK_ADD i, SetMask 0], i + 1)
             | pushMaskEnd \<Rightarrow>
                 ([SetStencilMode (if snd e then INVERSE_MASK_ACTIVE else MASK_ACTIVE) i, SetMask 15], i)
             | popMaskBegin \<Rightarrow>
                 (SetMask 0 #
                  (if i \<noteq> 0 then [SetStencilMode RENDERING_MASK_REMOVE i]
                   else [ClearStencil, SetStencilMode DISABLED i]), i - 1)
             | popMaskEnd \<Rightarrow>
                 ([SetStencilMode (if snd e then INVERSE_MASK_ACTIVE else MASK_ACTIVE) i, SetMask 15], i))
      in Q\<lparr>maskStackHash := (maskStackHash Q)(s \<mapsto> i'), gpu := gpu Q @ calls\<rparr>)"

text \<open>Executing the stencil instructions of an instruction list in order, on one render target.\<close>

fun Q_run :: "objref \<Rightarrow> (stencil_action \<times> bool) list \<Rightarrow> Q_state \<Rightarrow> Q_state" where
  "Q_run s [] Q = Q"
| "Q_run s (e # es) Q = Q_run s es (Q_execute s e Q)"

text \<open>
  A sequence of stencil instructions is nested when every \<^verbatim>\<open>popMaskBegin\<close> closes an
  earlier \<^verbatim>\<open>pushMaskBegin\<close>; \<open>nested d\<close> starts inside \<open>d\<close> open masks, and the
  sequence is balanced when it also ends with none open.
\<close>

fun nested :: "nat \<Rightarrow> stencil_action list \<Rightarrow> bool" where
  "nested d [] = True"
| "nested d (pushMaskBegin # as) = nested (Suc d) as"
| "nested d (popMaskBegin # as) = (0 < d \<and> nested (d - 1) as)"
| "nested d (_ # as) = nested d as"

fun opened :: "nat \<Rightarrow> stencil_action list \<Rightarrow> nat" where
  "opened d [] = d"
| "opened d (pushMaskBegin # as) = opened (Suc d) as"
| "opened d (popMaskBegin # as) = opened (d - 1) as"
| "opened d (_ # as) = opened d as"

definition balanced :: "stencil_action list \<Rightarrow> bool" where
  "balanced as = (nested 0 as \<and> opened 0 as = 0)"

subsection \<open>Runs of equal batcher names\<close>






subsection \<open>JavaScript numbers\<close>

text \<open>
  Alpha values and timestamps are JavaScript numbers, modelled as reals; \<^verbatim>\<open>NaN\<close> and the
  rounding of doubles are outside the model. \<^verbatim>\<open>x|0\<close> truncates towards zero and wraps
  to 32 bits, signed; \<^verbatim>\<open>y<<24\<close> multiplies by \<open>2 ^ 24\<close> and wraps the same way.
\<close>

definition js_int32 :: "int \<Rightarrow> int" where
  "js_int32 x = (x + 2 ^ 31) mod 2 ^ 32 - 2 ^ 31"

definition js_or0 :: "real \<Rightarrow> int" where
  "js_or0 x = js_int32 (if 0 \<le> x then \<lfloor>x\<rfloor> else \<lceil>x\<rceil>)"

definition js_shl24 :: "int \<Rightarrow> int" where
  "js_shl24 y = js_int32 (js_int32 y * 2 ^ 24)"

text \<open>\<^verbatim>\<open>t<0?0:t>1?1:t\<close>\<close>

definition clamp01 :: "real \<Rightarrow> real" where
  "clamp01 t = (if t < 0 then 0 else if t > 1 then 1 else t)"

subsection \<open>Scene graph\<close>

text \<open>
  Modelled from the spec: the Matrix class (\<^verbatim>\<open>g\<close>) is in another chunk; by the spec
  "transform matrices are 3x3 affine (2D homogeneous)", so a matrix is its six
  coefficients, \<^verbatim>\<open>copyFrom\<close> copies them and \<^verbatim>\<open>translate\<close> adds to the last two.
\<close>

record matrix =
  m_a :: real
  m_b :: real
  m_c :: real
  m_d :: real
  m_tx :: real
  m_ty :: real

definition identity_matrix :: matrix where
  "identity_matrix = \<lparr>m_a = 1, m_b = 0, m_c = 0, m_d = 1, m_tx = 0, m_ty = 0\<rparr>"

definition translate :: "matrix \<Rightarrow> real \<Rightarrow> real \<Rightarrow> matrix" where
  "translate m x y = m\<lparr>m_tx := m_tx m + x, m_ty := m_ty m + y\<rparr>"

text \<open>
  A container (class \<^verbatim>\<open>_\<close> of another chunk, and its subclasses such as sprites), with
  the fields this chunk reads and writes. References to other objects are \<open>objref\<close>s;
  \<open>None\<close> is \<^verbatim>\<open>null\<close> or \<^verbatim>\<open>undefined\<close>. \<open>renderGroup\<close> is the render group the
  container is the root of, \<open>parentRenderGroup\<close> the one it belongs to.
\<close>

record node =
  parent :: "objref option"
  children :: "objref list"
  renderGroup :: "objref option"
  parentRenderGroup :: "objref option"
  relativeRenderGroupDepth :: nat
  updateTick :: int
  didChange :: bool
  updateFlags :: nat \<comment> \<open>\<^verbatim>\<open>_updateFlags\<close>\<close>
  localTransform :: matrix
  relativeGroupTransform :: matrix
  localColor :: int
  groupColor :: int
  groupColorAlpha :: int
  localAlpha :: real
  groupAlpha :: real
  localBlendMode :: string
  groupBlendMode :: string
  localDisplayStatus :: nat
  globalDisplayStatus :: nat
  renderPipeId :: "string option"
  didViewUpdate :: bool
  visible :: bool
  lastUsed :: real \<comment> \<open>\<^verbatim>\<open>_lastUsed\<close>\<close>
  destroyed :: bool

text \<open>
  An update list \<^verbatim>\<open>{list, index}\<close>: the entries below \<open>index\<close> are the queued ones; an
  entry is \<open>None\<close> when it is \<^verbatim>\<open>null\<close>.
\<close>

record bucket =
  bk_list :: "objref option list"
  bk_index :: nat

text \<open>
  A render group (class of another chunk). \<open>childrenToUpdate\<close> is keyed by depth, in the
  order in which \<^verbatim>\<open>for...in\<close> visits integer keys (ascending).
\<close>

record rgroup =
  rg_root :: objref
  renderGroupParent :: "objref option"
  renderGroupChildren :: "objref list"
  rg_localTransform :: matrix
  worldTransform :: matrix
  worldColor :: int
  worldAlpha :: real
  worldColorAlpha :: int
  rg_updateTick :: int
  gcTick :: "int option"
  structureDidChange :: bool
  childrenToUpdate :: "(nat \<times> bucket) list"
  childrenRenderablesToUpdate :: bucket
  rg_instructions :: "instruction list" \<comment> \<open>\<^verbatim>\<open>instructionSet\<close>, below its size\<close>
  rg_is_gcTick :: "int option" \<comment> \<open>\<^verbatim>\<open>instructionSet.gcTick\<close>\<close>
  isCachedAsTexture :: bool
  textureNeedsUpdate :: bool

text \<open>
  What the functions do to objects that are not part of the scene state, in order. \<open>Visit\<close>
  is not a call of the source: it marks the point where \<^verbatim>\<open>rt\<close> has passed its tick test
  and starts to update a node.
\<close>

datatype event =
    Visit objref
  | UpdateRenderable objref objref \<comment> \<open>\<^verbatim>\<open>group.updateRenderable(renderable)\<close>\<close>
  | ValidateRenderable string objref \<comment> \<open>\<^verbatim>\<open>pipes[id].validateRenderable(renderable)\<close>\<close>
  | Reset objref \<comment> \<open>\<^verbatim>\<open>group.instructionSet.reset()\<close>\<close>
  | BuildStart objref \<comment> \<open>\<^verbatim>\<open>buildStart\<close> of the batch, blend mode and color mask pipes\<close>
  | Collect objref \<comment> \<open>\<^verbatim>\<open>root.collectRenderablesWithEffects(set, renderer, null)\<close>\<close>
  | BuildEnd objref \<comment> \<open>\<^verbatim>\<open>buildEnd\<close> of the batch and blend mode pipes\<close>
  | Upload objref \<comment> \<open>\<^verbatim>\<open>pipes.batch.upload(group.instructionSet)\<close>\<close>
  | DestroyRenderable string objref \<comment> \<open>\<^verbatim>\<open>pipes[id].destroyRenderable(renderable)\<close>\<close>
  | Off objref \<comment> \<open>\<^verbatim>\<open>renderable.off("destroyed", ...)\<close>\<close>

record scene =
  nodes :: "objref \<Rightarrow> node option"
  groups :: "objref \<Rightarrow> rgroup option"
  trace :: "event list"

text \<open>
  What this chunk imports or calls and does not define: the matrix product, a container's
  \<^verbatim>\<open>updateLocalTransform\<close>, the color product \<^verbatim>\<open>be\<close>, the fields of a new container
  (\<^verbatim>\<open>Et=new _\<close>), the flag bits \<^verbatim>\<open>Ce\<close>, \<^verbatim>\<open>ye\<close> and \<^verbatim>\<open>ke\<close>, the batcher's
  \<^verbatim>\<open>checkAndUpdateTexture\<close> as the sprite pipe calls it, \<^verbatim>\<open>validateRenderable\<close> of the
  pipes of other chunks, a render group's \<^verbatim>\<open>runOnRender\<close>, and the instructions that
  \<^verbatim>\<open>collectRenderablesWithEffects\<close> collects.
\<close>

record ext =
  appendFrom :: "matrix \<Rightarrow> matrix \<Rightarrow> matrix"
  updateLocalTransform :: "node \<Rightarrow> matrix"
  be :: "int \<Rightarrow> int \<Rightarrow> int"
  Et :: node
  Ce :: nat
  ye :: nat
  ke :: nat
  checkAndUpdateTexture :: "scene \<Rightarrow> objref \<Rightarrow> bool"
  validateOther :: "scene \<Rightarrow> string \<Rightarrow> objref \<Rightarrow> bool"
  runOnRender :: "objref \<Rightarrow> scene \<Rightarrow> scene"
  collectRenderablesWithEffects :: "scene \<Rightarrow> objref \<Rightarrow> instruction list"

text \<open>\<^verbatim>\<open>et=Ce|ye|ke\<close>\<close>

definition et :: "ext \<Rightarrow> nat" where
  "et X = Ce X OR ye X OR ke X"

subsection \<open>Transform propagator (\<^verbatim>\<open>q\<close>, \<^verbatim>\<open>Be\<close>, \<^verbatim>\<open>Ut\<close>, \<^verbatim>\<open>rt\<close>, \<^verbatim>\<open>tt\<close>)\<close>

text \<open>
  \<^verbatim>\<open>function q(n,e){e||(e=0);for(let t=e;t<n.length&&n[t];t++)n[t]=null}\<close>: from
  position \<open>e\<close> on, entries are set to \<^verbatim>\<open>null\<close> up to the first one that is already
  \<^verbatim>\<open>null\<close>.
\<close>

function q_list :: "objref option list \<Rightarrow> nat \<Rightarrow> objref option list" where
  "q_list n t = (if t < length n \<and> n ! t \<noteq> None then q_list (n[t := None]) (Suc t) else n)"
  by pat_completeness auto
termination
  by (relation "measure (\<lambda>(n, t). length n - t)") auto

text \<open>
  \<^verbatim>\<open>function tt(n,e,t){if(t&ye){n.groupColor=be(n.localColor,e.groupColor);
  let r=n.localAlpha*e.groupAlpha;r=r<0?0:r>1?1:r,n.groupAlpha=r,
  n.groupColorAlpha=n.groupColor+((r*255|0)<<24)}
  t&ke&&(n.groupBlendMode=n.localBlendMode==="inherit"?e.groupBlendMode:n.localBlendMode),
  t&Ce&&(n.globalDisplayStatus=n.localDisplayStatus&e.globalDisplayStatus),n._updateFlags=0}\<close>
\<close>

definition tt :: "ext \<Rightarrow> node \<Rightarrow> node \<Rightarrow> nat \<Rightarrow> node" where
  "tt X n e t =
     (let n1 = (if t AND ye X \<noteq> 0
                then (let c = be X (localColor n) (groupColor e);
                          r = clamp01 (localAlpha n * groupAlpha e)
                      in n\<lparr>groupColor := c, groupAlpha := r,
                           groupColorAlpha := c + js_shl24 (js_or0 (r * 255))\<rparr>)
                else n);
          n2 = (if t AND ke X \<noteq> 0
                then n1\<lparr>groupBlendMode :=
                       (if localBlendMode n1 = ''inherit'' then groupBlendMode e else localBlendMode n1)\<rparr>
                else n1);
          n3 = (if t AND Ce X \<noteq> 0
                then n2\<lparr>globalDisplayStatus := localDisplayStatus n2 AND globalDisplayStatus e\<rparr>
                else n2)
      in n3\<lparr>updateFlags := 0\<rparr>)"

text \<open>
  \<^verbatim>\<open>function Ut(n){let e=n.root,t;if(n.renderGroupParent){let r=n.renderGroupParent;
  n.worldTransform.appendFrom(e.relativeGroupTransform,r.worldTransform),
  n.worldColor=be(e.groupColor,r.worldColor),t=e.groupAlpha*r.worldAlpha}
  else n.worldTransform.copyFrom(e.localTransform),n.worldColor=e.localColor,t=e.localAlpha;
  t=t<0?0:t>1?1:t,n.worldAlpha=t,n.worldColorAlpha=n.worldColor+((t*255|0)<<24)}\<close>.
  \<open>Ut_group\<close> is the function on the group \<open>n\<close>, its root \<open>e\<close> and its parent group, if any;
  \<open>Ut\<close> finds the three in the scene.
\<close>

definition Ut_group :: "ext \<Rightarrow> rgroup \<Rightarrow> node \<Rightarrow> rgroup option \<Rightarrow> rgroup" where
  "Ut_group X n e p =
     (let (w, c, t) =
            (case p of
               Some r \<Rightarrow> (appendFrom X (relativeGroupTransform e) (worldTransform r),
                          be X (groupColor e) (worldColor r),
                          groupAlpha e * worldAlpha r)
             | None \<Rightarrow> (localTransform e, localColor e, localAlpha e));
          t' = clamp01 t
      in n\<lparr>worldTransform := w, worldColor := c, worldAlpha := t',
           worldColorAlpha := c + js_shl24 (js_or0 (t' * 255))\<rparr>)"

definition Ut :: "ext \<Rightarrow> scene \<Rightarrow> objref \<Rightarrow> error + scene" where
  "Ut X S n =
     (case groups S n of None \<Rightarrow> Inl TypeError
      | Some g \<Rightarrow>
        (case nodes S (rg_root g) of None \<Rightarrow> Inl TypeError
         | Some e \<Rightarrow>
           (case renderGroupParent g of
              None \<Rightarrow> Inr (S\<lparr>groups := (groups S)(n \<mapsto> Ut_group X g e None)\<rparr>)
            | Some r \<Rightarrow>
              (case groups S r of None \<Rightarrow> Inl TypeError
               | Some p \<Rightarrow> Inr (S\<lparr>groups := (groups S)(n \<mapsto> Ut_group X g e (Some p))\<rparr>)))))"

text \<open>A loop over a list whose body can throw.\<close>

fun fold_err :: "('a \<Rightarrow> 's \<Rightarrow> error + 's) \<Rightarrow> 'a list \<Rightarrow> 's \<Rightarrow> error + 's" where
  "fold_err f [] s = Inr s"
| "fold_err f (x # xs) s = (case f x s of Inl e \<Rightarrow> Inl e | Inr s' \<Rightarrow> fold_err f xs s')"

text \<open>
  The part of \<^verbatim>\<open>rt\<close> that updates the node itself, given its parent \<open>s\<close>:
  \<^verbatim>\<open>let s=n.parent;if(s&&!s.renderGroup?(t|=n._updateFlags,
  n.relativeGroupTransform.appendFrom(r,s.relativeGroupTransform),t&et&&tt(n,s,t))
  :(t=n._updateFlags,n.relativeGroupTransform.copyFrom(r),t&et&&tt(n,Et,t)),...\<close>.
  It returns the node and the flags \<open>t\<close> passed on to the children.
\<close>

definition rt_node :: "ext \<Rightarrow> node \<Rightarrow> node option \<Rightarrow> nat \<Rightarrow> node \<times> nat" where
  "rt_node X n s t =
     (let r = localTransform n
      in case (case s of None \<Rightarrow> None
                       | Some p \<Rightarrow> if renderGroup p = None then Some p else None) of
           Some p \<Rightarrow>
             (let t1 = t OR updateFlags n;
                  n1 = n\<lparr>relativeGroupTransform := appendFrom X r (relativeGroupTransform p)\<rparr>
              in (if t1 AND et X \<noteq> 0 then tt X n1 p t1 else n1, t1))
         | None \<Rightarrow>
             (let t1 = updateFlags n;
                  n1 = n\<lparr>relativeGroupTransform := r\<rparr>
              in (if t1 AND et X \<noteq> 0 then tt X n1 (Et X) t1 else n1, t1)))"

text \<open>
  \<^verbatim>\<open>function rt(n,e,t){if(e===n.updateTick)return;n.updateTick=e,n.didChange=!1;
  let r=n.localTransform;n.updateLocalTransform();let s=n.parent;...
  if(!n.renderGroup){let i=n.children,a=i.length;for(let d=0;d<a;d++)rt(i[d],e,t);
  let l=n.parentRenderGroup,u=n;u.renderPipeId&&!l.structureDidChange&&l.updateRenderable(u)}}\<close>.
  \<open>rt_enter\<close> is the part before the loop over the children, for a node \<open>nd\<close> that passed
  the tick test: it returns the scene, the flags for the children and the updated node.
  \<open>rt_exit\<close> is the part after the loop.
\<close>

definition rt_enter :: "ext \<Rightarrow> scene \<Rightarrow> objref \<Rightarrow> node \<Rightarrow> int \<Rightarrow> nat \<Rightarrow> error + (scene \<times> nat \<times> node)" where
  "rt_enter X S n nd e t =
     (let nd1 = nd\<lparr>updateTick := e, didChange := False,
                    localTransform := updateLocalTransform X nd\<rparr>;
          S1 = S\<lparr>nodes := (nodes S)(n \<mapsto> nd1), trace := trace S @ [Visit n]\<rparr>
      in case (case parent nd1 of None \<Rightarrow> Inr None
               | Some p \<Rightarrow> (case nodes S1 p of None \<Rightarrow> Inl TypeError
                            | Some s \<Rightarrow> Inr (Some s))) of
           Inl x \<Rightarrow> Inl x
         | Inr s \<Rightarrow>
            (let (nd2, t') = rt_node X nd1 s t
             in Inr (S1\<lparr>nodes := (nodes S1)(n \<mapsto> nd2)\<rparr>, t', nd2)))"

definition rt_exit :: "scene \<Rightarrow> objref \<Rightarrow> error + scene" where
  "rt_exit S n =
     (case nodes S n of None \<Rightarrow> Inl TypeError
      | Some u \<Rightarrow>
        (case renderPipeId u of None \<Rightarrow> Inr S
         | Some pid \<Rightarrow>
           (case parentRenderGroup u of None \<Rightarrow> Inl TypeError
            | Some l \<Rightarrow>
              (case groups S l of None \<Rightarrow> Inl TypeError
               | Some lg \<Rightarrow>
                 if structureDidChange lg then Inr S
                 else Inr (S\<lparr>trace := trace S @ [UpdateRenderable l n]\<rparr>)))))"

text \<open>
  The recursion follows references through the scene, so the first argument bounds its
  depth; a reference to an object that the scene does not hold is a \<open>TypeError\<close>.
\<close>

fun rt :: "nat \<Rightarrow> ext \<Rightarrow> scene \<Rightarrow> objref \<Rightarrow> int \<Rightarrow> nat \<Rightarrow> error + scene" where
  "rt 0 X S n e t = Inl OutOfFuel"
| "rt (Suc k) X S n e t =
     (case nodes S n of None \<Rightarrow> Inl TypeError
      | Some nd \<Rightarrow>
        if e = updateTick nd then Inr S
        else
          (case rt_enter X S n nd e t of
             Inl x \<Rightarrow> Inl x
           | Inr (S2, t', nd2) \<Rightarrow>
               if renderGroup nd2 \<noteq> None then Inr S2
               else
                 (case fold_err (\<lambda>c S'. rt k X S' c e t') (children nd2) S2 of
                    Inl x \<Rightarrow> Inl x
                  | Inr S3 \<Rightarrow> rt_exit S3 n)))"

text \<open>
  The entries of a bucket that the loop \<^verbatim>\<open>for(let d=0;d<u;d++)\<close> reads: the first
  \<open>index\<close> positions of the list, \<^verbatim>\<open>undefined\<close> beyond its length.
\<close>

definition queued :: "bucket \<Rightarrow> objref option list" where
  "queued a = take (bk_index a) (bk_list a) @ replicate (bk_index a - length (bk_list a)) None"

text \<open>
  The inner loop of \<^verbatim>\<open>Be\<close> over one bucket:
  \<^verbatim>\<open>let h=l[d];h.parentRenderGroup===n&&h.relativeRenderGroupDepth===i&&rt(h,r,0)\<close>.
\<close>

fun Be_entries ::
  "nat \<Rightarrow> ext \<Rightarrow> objref \<Rightarrow> int \<Rightarrow> nat \<Rightarrow> objref option list \<Rightarrow> scene \<Rightarrow> error + scene"
where
  "Be_entries k X n r i [] S = Inr S"
| "Be_entries k X n r i (h # hs) S =
     (case h of None \<Rightarrow> Inl TypeError
      | Some h' \<Rightarrow>
        (case nodes S h' of None \<Rightarrow> Inl TypeError
         | Some nd \<Rightarrow>
           (case (if parentRenderGroup nd = Some n \<and> relativeRenderGroupDepth nd = i
                  then rt k X S h' r 0 else Inr S) of
              Inl x \<Rightarrow> Inl x
            | Inr S' \<Rightarrow> Be_entries k X n r i hs S')))"

text \<open>After its entries: \<^verbatim>\<open>q(l,u),a.index=0\<close>.\<close>

definition bucket_done :: "bucket \<Rightarrow> bucket" where
  "bucket_done a = a\<lparr>bk_list := q_list (bk_list a) (bk_index a), bk_index := 0\<rparr>"

definition set_bucket :: "objref \<Rightarrow> nat \<Rightarrow> bucket \<Rightarrow> scene \<Rightarrow> scene" where
  "set_bucket n i a S =
     (case groups S n of None \<Rightarrow> S
      | Some g \<Rightarrow>
          S\<lparr>groups := (groups S)(n \<mapsto>
               g\<lparr>childrenToUpdate :=
                    map (\<lambda>(j, b). if j = i then (j, a) else (j, b)) (childrenToUpdate g)\<rparr>)\<rparr>)"

text \<open>The outer loop \<^verbatim>\<open>for(let s in t)\<close> over the buckets.\<close>

fun Be_buckets ::
  "nat \<Rightarrow> ext \<Rightarrow> objref \<Rightarrow> int \<Rightarrow> (nat \<times> bucket) list \<Rightarrow> scene \<Rightarrow> error + scene"
where
  "Be_buckets k X n r [] S = Inr S"
| "Be_buckets k X n r ((i, a) # bs) S =
     (case Be_entries k X n r i (queued a) S of
        Inl x \<Rightarrow> Inl x
      | Inr S' \<Rightarrow> Be_buckets k X n r bs (set_bucket n i (bucket_done a) S'))"

text \<open>
  \<^verbatim>\<open>function Be(n,e=!1){Ut(n);let t=n.childrenToUpdate,r=n.updateTick++;for(let s in t){...}
  if(e)for(...)Be(n.renderGroupChildren[s],e)}\<close>. No call of this chunk passes the second
  argument, so the recursion into the render group children is left out: the render
  group system walks them itself.
\<close>

definition Be :: "nat \<Rightarrow> ext \<Rightarrow> scene \<Rightarrow> objref \<Rightarrow> error + scene" where
  "Be k X S n =
     (case Ut X S n of Inl x \<Rightarrow> Inl x
      | Inr S1 \<Rightarrow>
        (case groups S1 n of None \<Rightarrow> Inl TypeError
         | Some g \<Rightarrow>
            (let r = rg_updateTick g;
                 S2 = S1\<lparr>groups := (groups S1)(n \<mapsto> g\<lparr>rg_updateTick := r + 1\<rparr>)\<rparr>
             in Be_buckets k X n r (childrenToUpdate g) S2)))"

subsection \<open>What a propagation pass changes\<close>

text \<open>The nodes a trace visits, and the fields of a node that make the shape of the scene.\<close>

fun visits :: "event list \<Rightarrow> objref list" where
  "visits [] = []"
| "visits (Visit m # es) = m # visits es"
| "visits (_ # es) = visits es"

definition node_struct ::
  "node \<Rightarrow> objref option \<times> objref list \<times> objref option \<times> objref option \<times> nat \<times> string option" where
  "node_struct a =
     (parent a, children a, renderGroup a, parentRenderGroup a, relativeRenderGroupDepth a,
      renderPipeId a)"

text \<open>
  \<open>pass_rel e S S'\<close>: from \<open>S\<close> to \<open>S'\<close> the shape of the scene is the same, the trace
  has grown by events that visit no node twice, the visited nodes had another tick than
  \<open>e\<close> and now have tick \<open>e\<close>, and the other nodes kept their tick.
\<close>

definition pass_rel :: "int \<Rightarrow> scene \<Rightarrow> scene \<Rightarrow> bool" where
  "pass_rel e S S' =
     (\<exists>evs. trace S' = trace S @ evs \<and> distinct (visits evs) \<and>
        (\<forall>m. (nodes S m = None \<longleftrightarrow> nodes S' m = None) \<and>
             (\<forall>a b. nodes S m = Some a \<longrightarrow> nodes S' m = Some b \<longrightarrow>
                node_struct b = node_struct a \<and>
                updateTick b = (if m \<in> set (visits evs) then e else updateTick a))) \<and>
        (\<forall>m\<in>set (visits evs). \<exists>a. nodes S m = Some a \<and> updateTick a \<noteq> e))"

text \<open>
  What finishing the bucket \<open>(i, a)\<close> does to the buckets of its group: the bucket under
  the key \<open>i\<close> becomes \<open>bucket_done a\<close>.
\<close>

fun upd_bucket :: "(nat \<times> bucket) list \<Rightarrow> nat \<times> bucket \<Rightarrow> (nat \<times> bucket) list" where
  "upd_bucket cs (i, a) = map (\<lambda>(j, b). if j = i then (j, bucket_done a) else (j, b)) cs"

subsection \<open>Values for the examples\<close>


definition example_group :: rgroup where
  "example_group =
     \<lparr>rg_root = 0, renderGroupParent = None, renderGroupChildren = [],
      rg_localTransform = identity_matrix, worldTransform = identity_matrix,
      worldColor = 16777215, worldAlpha = 1, worldColorAlpha = - 1, rg_updateTick = 0,
      gcTick = Some 0, structureDidChange = True, childrenToUpdate = [],
      childrenRenderablesToUpdate = \<lparr>bk_list = [], bk_index = 0\<rparr>,
      rg_instructions = [], rg_is_gcTick = None,
      isCachedAsTexture = False, textureNeedsUpdate = False\<rparr>"


section \<open>Runner: one registration per handler\<close>











section \<open>Instruction sets\<close>

lemma instructions_foldl_IS_add: "instructions (foldl IS_add s xs) = instructions s @ xs"
  by (induction xs arbitrary: s) (simp_all add: IS_add_def)

section \<open>Batcher pipe: batches and runs\<close>
























section \<open>Stencil mask: the reference count\<close>

lemma Q_count_execute:
  "Q_count (Q_execute s e Q) s =
     Q_count Q s + (case fst e of pushMaskBegin \<Rightarrow> 1 | popMaskBegin \<Rightarrow> - 1 | _ \<Rightarrow> 0)"
  by (cases "fst e") (simp_all add: Q_execute_def Q_count_def Let_def)

lemma Q_run_count:
  "nested d (map fst es) \<Longrightarrow> Q_count Q s = int d \<Longrightarrow>
   Q_count (Q_run s es Q) s = int (opened d (map fst es)) \<and>
   (\<forall>n. 0 \<le> Q_count (Q_run s (take n es) Q) s)"
proof (induction es arbitrary: d Q)
  case Nil
  then show ?case by simp
next
  case (Cons e es)
  obtain a inv where e: "e = (a, inv)" by (cases e)
  let ?Q = "Q_execute s e Q"
  have c: "Q_count ?Q s = Q_count Q s + (case a of pushMaskBegin \<Rightarrow> 1 | popMaskBegin \<Rightarrow> - 1 | _ \<Rightarrow> 0)"
    using Q_count_execute [of s e Q] e by simp
  have pre: "0 \<le> Q_count (Q_run s (take n (e # es)) Q) s"
    if r: "\<forall>n. 0 \<le> Q_count (Q_run s (take n es) ?Q) s" for n
  proof (cases n)
    case 0
    then show ?thesis using Cons.prems by simp
  next
    case (Suc k)
    then show ?thesis using r by simp
  qed
  show ?case
  proof (cases a)
    case pushMaskBegin
    have "nested (Suc d) (map fst es)" using Cons.prems e pushMaskBegin by simp
    moreover have "Q_count ?Q s = int (Suc d)" using c Cons.prems pushMaskBegin by simp
    ultimately have "Q_count (Q_run s es ?Q) s = int (opened (Suc d) (map fst es)) \<and>
        (\<forall>n. 0 \<le> Q_count (Q_run s (take n es) ?Q) s)"
      by (rule Cons.IH)
    then show ?thesis using pre e pushMaskBegin by simp
  next
    case popMaskBegin
    have d: "0 < d" and n: "nested (d - 1) (map fst es)"
      using Cons.prems e popMaskBegin by simp_all
    have "Q_count ?Q s = int (d - 1)" using c Cons.prems popMaskBegin d by simp
    with n have "Q_count (Q_run s es ?Q) s = int (opened (d - 1) (map fst es)) \<and>
        (\<forall>n. 0 \<le> Q_count (Q_run s (take n es) ?Q) s)"
      by (rule Cons.IH)
    then show ?thesis using pre e popMaskBegin by simp
  next
    case pushMaskEnd
    have "nested d (map fst es)" using Cons.prems e pushMaskEnd by simp
    moreover have "Q_count ?Q s = int d" using c Cons.prems pushMaskEnd by simp
    ultimately have "Q_count (Q_run s es ?Q) s = int (opened d (map fst es)) \<and>
        (\<forall>n. 0 \<le> Q_count (Q_run s (take n es) ?Q) s)"
      by (rule Cons.IH)
    then show ?thesis using pre e pushMaskEnd by simp
  next
    case popMaskEnd
    have "nested d (map fst es)" using Cons.prems e popMaskEnd by simp
    moreover have "Q_count ?Q s = int d" using c Cons.prems popMaskEnd by simp
    ultimately have "Q_count (Q_run s es ?Q) s = int (opened d (map fst es)) \<and>
        (\<forall>n. 0 \<le> Q_count (Q_run s (take n es) ?Q) s)"
      by (rule Cons.IH)
    then show ?thesis using pre e popMaskEnd by simp
  qed
qed

text \<open>
  C4, as the code has it. On one render target, along a balanced sequence of stencil
  instructions that starts with the count at 0: the count ends at 0 and is negative
  after no prefix; every \<^verbatim>\<open>pushMaskBegin\<close> adds exactly one to the count; and a
  \<^verbatim>\<open>popMaskBegin\<close> that finds the count at 0 clears the stencil plane and sets the
  stencil mode to \<open>DISABLED\<close>.
\<close>

theorem stencil_count_balanced:
  assumes "balanced (map fst es)" and "Q_count Q s = 0"
  shows "Q_count (Q_run s es Q) s = 0 \<and>
         (\<forall>n. 0 \<le> Q_count (Q_run s (take n es) Q) s) \<and>
         (\<forall>Q' inv. Q_count (Q_execute s (pushMaskBegin, inv) Q') s = Q_count Q' s + 1) \<and>
         (\<forall>Q' inv. Q_count Q' s = 0 \<longrightarrow>
            gpu (Q_execute s (popMaskBegin, inv) Q') =
              gpu Q' @ [SetMask 0, ClearStencil, SetStencilMode DISABLED 0])"
proof -
  have "nested 0 (map fst es)" and o: "opened 0 (map fst es) = 0"
    using assms(1) by (simp_all add: balanced_def)
  then have "Q_count (Q_run s es Q) s = int (opened 0 (map fst es)) \<and>
      (\<forall>n. 0 \<le> Q_count (Q_run s (take n es) Q) s)"
    using assms(2) by (intro Q_run_count) simp_all
  moreover have "Q_count (Q_execute s (pushMaskBegin, inv) Q') s = Q_count Q' s + 1" for Q' inv
    using Q_count_execute [of s "(pushMaskBegin, inv)" Q'] by simp
  moreover have "gpu (Q_execute s (popMaskBegin, inv) Q') =
      gpu Q' @ [SetMask 0, ClearStencil, SetStencilMode DISABLED 0]"
    if "Q_count Q' s = 0" for Q' inv
    using that by (simp add: Q_execute_def Let_def)
  ultimately show ?thesis using o by simp
qed

theorem stencil_count_balanced_witness:
  "Q_count (Q_run 7 [(pushMaskBegin, False), (pushMaskEnd, False), (pushMaskBegin, True),
      (pushMaskEnd, True), (popMaskBegin, True), (popMaskEnd, False), (popMaskBegin, False),
      (popMaskEnd, False)] \<lparr>maskStackHash = (\<lambda>_. None), gpu = []\<rparr>) 7 = 0"
  using stencil_count_balanced [of "[(pushMaskBegin, False), (pushMaskEnd, False), (pushMaskBegin, True),
      (pushMaskEnd, True), (popMaskBegin, True), (popMaskEnd, False), (popMaskBegin, False),
      (popMaskEnd, False)]" "\<lparr>maskStackHash = (\<lambda>_. None), gpu = []\<rparr>" 7]
  by (simp add: balanced_def Q_count_def)

text \<open>
  C4 as stated says that a \<^verbatim>\<open>popMaskBegin\<close> at count 0 does not decrement. The
  \<^verbatim>\<open>i--\<close> of \<^verbatim>\<open>execute\<close> is outside the test on \<^verbatim>\<open>i!==0\<close>: from a count of 0 the
  count becomes \<open>-1\<close>.
\<close>

theorem stencil_pop_at_zero_decrements:
  "Q_count \<lparr>maskStackHash = (\<lambda>_. None), gpu = []\<rparr> 7 = 0 \<and>
   Q_count (Q_execute 7 (popMaskBegin, False) \<lparr>maskStackHash = (\<lambda>_. None), gpu = []\<rparr>) 7 = - 1"
  by (simp add: Q_execute_def Q_count_def Let_def)

section \<open>Color mask: the stack of masks\<close>

lemma colorMasks_append: "colorMasks (xs @ ys) = colorMasks xs @ colorMasks ys"
  by (induction xs rule: colorMasks.induct) simp_all

lemma colorMasks_Batch: "colorMasks (map (Batch k) gs) = []"
  by (induction gs) simp_all

lemma Ue_break_active:
  assumes "Ue_active U \<noteq> None"
  shows "\<exists>U' r'. Ue_break U r = Inr (U', r') \<and> Ue_active U' \<noteq> None \<and>
           colorMasks (instructions r') = colorMasks (instructions r)"
proof -
  obtain u t k b where a: "Ue_active U = Some (u, t, k, b)" using assms by auto
  then have ab: "activeBatches U = Some u" "batchersByInstructionSet U u = Some t"
      "activeBatch U = Some k" "t k = Some b"
    by (auto simp: Ue_active_def split: option.splits)
  obtain b' r' where br: "batcher_break b r = (b', r')" by (cases "batcher_break b r")
  have c: "colorMasks (instructions r') = colorMasks (instructions r)"
    using br by (auto simp: batcher_break_def instructions_foldl_IS_add colorMasks_append colorMasks_Batch)
  let ?U = "U\<lparr>batchersByInstructionSet := (batchersByInstructionSet U)(u \<mapsto> t(k \<mapsto> b'))\<rparr>"
  have "Ue_break U r = Inr (?U, r')" using a br by (simp add: Ue_break_def)
  moreover have "Ue_active ?U \<noteq> None" using ab by (simp add: Ue_active_def)
  ultimately show ?thesis using c by blast
qed

lemma J_push_step:
  assumes "Ue_active U \<noteq> None"
  shows "\<exists>J1 U1 r1. J_push J m U r = Inr (J1, U1, r1) \<and> Ue_active U1 \<noteq> None \<and>
     colorStackIndex J1 = colorStackIndex J + 1 \<and>
     colorStack J1 = (colorStack J)(colorStackIndex J := Some (js_and (colorStack J (colorStackIndex J - 1)) m)) \<and>
     currentColor J1 = Some (js_and (colorStack J (colorStackIndex J - 1)) m) \<and>
     colorMasks (instructions r1) = colorMasks (instructions r) @
       (if currentColor J1 \<noteq> currentColor J then [currentColor J1] else [])"
proof -
  obtain U' r' where b: "Ue_break U r = Inr (U', r')" "Ue_active U' \<noteq> None"
      "colorMasks (instructions r') = colorMasks (instructions r)"
    using Ue_break_active [OF assms] by blast
  show ?thesis
    using b by (auto simp: J_push_def Let_def IS_add_def colorMasks_append)
qed

lemma J_pop_step:
  assumes "Ue_active U \<noteq> None"
  shows "\<exists>J1 U1 r1. J_pop J U r = Inr (J1, U1, r1) \<and> Ue_active U1 \<noteq> None \<and>
     colorStackIndex J1 = colorStackIndex J - 1 \<and>
     colorStack J1 = colorStack J \<and>
     currentColor J1 = colorStack J (colorStackIndex J - 2) \<and>
     colorMasks (instructions r1) = colorMasks (instructions r) @
       (if currentColor J1 \<noteq> currentColor J then [currentColor J1] else [])"
proof -
  obtain U' r' where b: "Ue_break U r = Inr (U', r')" "Ue_active U' \<noteq> None"
      "colorMasks (instructions r') = colorMasks (instructions r)"
    using Ue_break_active [OF assms] by blast
  have "colorStackIndex J - 1 - 1 = colorStackIndex J - 2" by simp
  then show ?thesis
    using b by (auto simp: J_pop_def Let_def IS_add_def colorMasks_append)
qed


lemma J_push_inv:
  assumes "Ue_active U \<noteq> None" and "J_inv J ms"
  shows "\<exists>J1 U1 r1. J_push J m U r = Inr (J1, U1, r1) \<and> Ue_active U1 \<noteq> None \<and> J_inv J1 (ms @ [m])"
proof -
  obtain J1 U1 r1 where p: "J_push J m U r = Inr (J1, U1, r1)" "Ue_active U1 \<noteq> None"
      "colorStackIndex J1 = colorStackIndex J + 1"
      "colorStack J1 = (colorStack J)(colorStackIndex J := Some (js_and (colorStack J (colorStackIndex J - 1)) m))"
      "currentColor J1 = Some (js_and (colorStack J (colorStackIndex J - 1)) m)"
    using J_push_step [OF assms(1), where J = J and m = m and r = r] by blast
  have i: "colorStackIndex J = 1 + int (length ms)"
    and s: "\<And>j. j \<le> length ms \<Longrightarrow> colorStack J (int j) = Some (foldl (AND) 15 (take j ms))"
    using assms(2) by (simp_all add: J_inv_def)
  have top: "colorStack J (colorStackIndex J - 1) = Some (foldl (AND) 15 ms)"
    using s [of "length ms"] i by simp
  have "colorStack J1 (int j) = Some (foldl (AND) 15 (take j (ms @ [m])))"
    if "j \<le> length (ms @ [m])" for j
  proof (cases "j \<le> length ms")
    case True
    then show ?thesis using p(4) i s [of j] by simp
  next
    case False
    then have "j = Suc (length ms)" using that by simp
    then show ?thesis using p(4) i top by (simp add: js_and_def)
  qed
  then have "J_inv J1 (ms @ [m])"
    using p(3,5) i top by (simp add: J_inv_def js_and_def)
  then show ?thesis using p(1,2) by blast
qed

lemma J_pop_inv:
  assumes "Ue_active U \<noteq> None" and "J_inv J ms" and "ms \<noteq> []"
  shows "\<exists>J1 U1 r1. J_pop J U r = Inr (J1, U1, r1) \<and> Ue_active U1 \<noteq> None \<and> J_inv J1 (butlast ms)"
proof -
  obtain J1 U1 r1 where p: "J_pop J U r = Inr (J1, U1, r1)" "Ue_active U1 \<noteq> None"
      "colorStackIndex J1 = colorStackIndex J - 1"
      "colorStack J1 = colorStack J"
      "currentColor J1 = colorStack J (colorStackIndex J - 2)"
    using J_pop_step [OF assms(1), where J = J and r = r] by blast
  have i: "colorStackIndex J = 1 + int (length ms)"
    and s: "\<And>j. j \<le> length ms \<Longrightarrow> colorStack J (int j) = Some (foldl (AND) 15 (take j ms))"
    using assms(2) by (simp_all add: J_inv_def)
  have l: "0 < length ms" using assms(3) by simp
  have "colorStackIndex J - 2 = int (length ms - 1)" using i assms(3) by (cases ms) simp_all
  then have c: "currentColor J1 = Some (foldl (AND) 15 (butlast ms))"
    using p(5) s [of "length ms - 1"] by (simp add: butlast_conv_take)
  have "colorStack J1 (int j) = Some (foldl (AND) 15 (take j (butlast ms)))"
    if "j \<le> length (butlast ms)" for j
  proof -
    have "length (butlast ms) = length ms - 1" by simp
    then have "j < length ms" using that l by linarith
    then show ?thesis using p(4) s [of j] by (simp add: take_butlast)
  qed
  moreover have "1 + int (length (butlast ms)) = int (length ms)"
    using assms(3) by (cases ms rule: rev_cases) simp_all
  ultimately have "J_inv J1 (butlast ms)"
    using p(3) i c unfolding J_inv_def by simp
  then show ?thesis using p(1,2) by blast
qed

lemma J_run_inv:
  "Ue_active U \<noteq> None \<Longrightarrow> J_inv J ms \<Longrightarrow> open_masks ops ms = Some ms' \<Longrightarrow>
   \<exists>J1 U1 r1. J_run J ops U r = Inr (J1, U1, r1) \<and> Ue_active U1 \<noteq> None \<and> J_inv J1 ms'"
proof (induction ops arbitrary: J ms U r)
  case Nil
  then show ?case by simp
next
  case (Cons op ops)
  show ?case
  proof (cases op)
    case (Push m)
    obtain J1 U1 r1 where p: "J_push J m U r = Inr (J1, U1, r1)" "Ue_active U1 \<noteq> None"
        "J_inv J1 (ms @ [m])"
      using J_push_inv [OF Cons.prems(1,2), where m = m and r = r] by blast
    have "open_masks ops (ms @ [m]) = Some ms'" using Cons.prems(3) Push by simp
    from Cons.IH [OF p(2,3) this, where r = r1] show ?thesis using p(1) Push by simp
  next
    case Pop
    have ne: "ms \<noteq> []" and o: "open_masks ops (butlast ms) = Some ms'"
      using Cons.prems(3) Pop by (simp_all split: if_splits)
    obtain J1 U1 r1 where p: "J_pop J U r = Inr (J1, U1, r1)" "Ue_active U1 \<noteq> None"
        "J_inv J1 (butlast ms)"
      using J_pop_inv [OF Cons.prems(1,2) ne, where r = r] by blast
    from Cons.IH [OF p(2,3) o, where r = r1] show ?thesis using p(1) Pop by simp
  qed
qed

lemma J_buildStart_inv: "J_inv (J_buildStart J) []"
  by (simp add: J_inv_def J_buildStart_def)

text \<open>
  C5. With an active batch to break: after \<^verbatim>\<open>buildStart\<close> and any sequence of pushes and
  pops in which no pop finds the stack empty, the top of the stack and the current color
  are the conjunction of 15 with every mask that is still pushed. From any state whose
  current color is the top of the stack, a push makes the new top the old top \<open>AND\<close> the
  pushed mask, adds a color-mask instruction exactly when that value differs from the
  current color, and the pop that follows restores the index and the current color it
  found, again adding an instruction exactly when the value changes.
\<close>

theorem color_mask_stack:
  assumes "Ue_active U \<noteq> None"
  shows "(open_masks ops [] = Some ms \<longrightarrow>
           (\<exists>J1 U1 r1. J_run (J_buildStart J0) ops U r = Inr (J1, U1, r1) \<and>
              colorStackIndex J1 = 1 + int (length ms) \<and>
              colorStack J1 (colorStackIndex J1 - 1) = Some (foldl (AND) 15 ms) \<and>
              currentColor J1 = Some (foldl (AND) 15 ms))) \<and>
         (currentColor J = colorStack J (colorStackIndex J - 1) \<longrightarrow>
           (\<exists>J1 U1 r1. J_push J m U r = Inr (J1, U1, r1) \<and>
              colorStackIndex J1 = colorStackIndex J + 1 \<and>
              colorStack J1 (colorStackIndex J1 - 1) = Some (js_and (colorStack J (colorStackIndex J - 1)) m) \<and>
              currentColor J1 = colorStack J1 (colorStackIndex J1 - 1) \<and>
              colorMasks (instructions r1) = colorMasks (instructions r) @
                (if currentColor J1 \<noteq> currentColor J then [currentColor J1] else []) \<and>
              (\<exists>J2 U2 r2. J_pop J1 U1 r1 = Inr (J2, U2, r2) \<and>
                 colorStackIndex J2 = colorStackIndex J \<and>
                 currentColor J2 = currentColor J \<and>
                 colorMasks (instructions r2) = colorMasks (instructions r1) @
                   (if currentColor J \<noteq> currentColor J1 then [currentColor J] else []))))"
proof (intro conjI impI)
  assume o: "open_masks ops [] = Some ms"
  obtain J1 U1 r1 where "J_run (J_buildStart J0) ops U r = Inr (J1, U1, r1)" "J_inv J1 ms"
    using J_run_inv [OF assms J_buildStart_inv o, where r = r] by blast
  moreover from this(2) have "colorStackIndex J1 = 1 + int (length ms)"
      "colorStack J1 (colorStackIndex J1 - 1) = Some (foldl (AND) 15 ms)"
      "currentColor J1 = Some (foldl (AND) 15 ms)"
    by (simp_all add: J_inv_def)
  ultimately show "\<exists>J1 U1 r1. J_run (J_buildStart J0) ops U r = Inr (J1, U1, r1) \<and>
      colorStackIndex J1 = 1 + int (length ms) \<and>
      colorStack J1 (colorStackIndex J1 - 1) = Some (foldl (AND) 15 ms) \<and>
      currentColor J1 = Some (foldl (AND) 15 ms)"
    by blast
next
  assume c: "currentColor J = colorStack J (colorStackIndex J - 1)"
  obtain J1 U1 r1 where p: "J_push J m U r = Inr (J1, U1, r1)" "Ue_active U1 \<noteq> None"
      "colorStackIndex J1 = colorStackIndex J + 1"
      "colorStack J1 = (colorStack J)(colorStackIndex J := Some (js_and (colorStack J (colorStackIndex J - 1)) m))"
      "currentColor J1 = Some (js_and (colorStack J (colorStackIndex J - 1)) m)"
      "colorMasks (instructions r1) = colorMasks (instructions r) @
         (if currentColor J1 \<noteq> currentColor J then [currentColor J1] else [])"
    using J_push_step [OF assms, where J = J and m = m and r = r] by blast
  obtain J2 U2 r2 where q: "J_pop J1 U1 r1 = Inr (J2, U2, r2)"
      "colorStackIndex J2 = colorStackIndex J1 - 1"
      "currentColor J2 = colorStack J1 (colorStackIndex J1 - 2)"
      "colorMasks (instructions r2) = colorMasks (instructions r1) @
         (if currentColor J2 \<noteq> currentColor J1 then [currentColor J2] else [])"
    using J_pop_step [OF p(2), where J = J1 and r = r1] by blast
  have t: "colorStack J1 (colorStackIndex J1 - 1) = Some (js_and (colorStack J (colorStackIndex J - 1)) m)"
    using p(3,4) by simp
  have "colorStackIndex J1 - 2 = colorStackIndex J - 1" using p(3) by simp
  then have b: "currentColor J2 = currentColor J" using q(3) p(4) c by simp
  have "colorStackIndex J2 = colorStackIndex J" using q(2) p(3) by simp
  then show "\<exists>J1 U1 r1. J_push J m U r = Inr (J1, U1, r1) \<and>
      colorStackIndex J1 = colorStackIndex J + 1 \<and>
      colorStack J1 (colorStackIndex J1 - 1) = Some (js_and (colorStack J (colorStackIndex J - 1)) m) \<and>
      currentColor J1 = colorStack J1 (colorStackIndex J1 - 1) \<and>
      colorMasks (instructions r1) = colorMasks (instructions r) @
        (if currentColor J1 \<noteq> currentColor J then [currentColor J1] else []) \<and>
      (\<exists>J2 U2 r2. J_pop J1 U1 r1 = Inr (J2, U2, r2) \<and>
         colorStackIndex J2 = colorStackIndex J \<and>
         currentColor J2 = currentColor J \<and>
         colorMasks (instructions r2) = colorMasks (instructions r1) @
           (if currentColor J \<noteq> currentColor J1 then [currentColor J] else []))"
    using p(1,3,5,6) t q(1,4) b by auto
qed

theorem color_mask_stack_witness:
  "Ue_active (Ue_buildStart (Ue_new 16) \<lparr>is_uid = 1, instructions = []\<rparr>) \<noteq> None \<and>
   open_masks [Push 7, Push 3, Pop] [] = Some [7] \<and>
   (\<exists>J1 U1 r1. J_run (J_buildStart J_new) [Push 7, Push 3, Pop]
        (Ue_buildStart (Ue_new 16) \<lparr>is_uid = 1, instructions = []\<rparr>) \<lparr>is_uid = 1, instructions = []\<rparr>
          = Inr (J1, U1, r1) \<and> currentColor J1 = Some 7) \<and>
   (\<exists>J1 U1 r1. J_push (J_buildStart J_new) 7
        (Ue_buildStart (Ue_new 16) \<lparr>is_uid = 1, instructions = []\<rparr>) \<lparr>is_uid = 1, instructions = []\<rparr>
          = Inr (J1, U1, r1) \<and>
        (\<exists>J2 U2 r2. J_pop J1 U1 r1 = Inr (J2, U2, r2) \<and> currentColor J2 = Some 15))"
proof -
  have a: "Ue_active (Ue_buildStart (Ue_new 16) \<lparr>is_uid = 1, instructions = []\<rparr>) \<noteq> None"
    by (simp add: Ue_active_def Ue_buildStart_def Ue_new_def Let_def)
  have o: "open_masks [Push 7, Push 3, Pop] [] = Some [7]" by simp
  have c: "currentColor (J_buildStart J_new) =
      colorStack (J_buildStart J_new) (colorStackIndex (J_buildStart J_new) - 1)"
    by (simp add: J_buildStart_def)
  have f: "foldl (AND) 15 [7 :: 32 word] = 7" by simp
  have k: "currentColor (J_buildStart J_new) = Some 15" by (simp add: J_buildStart_def)
  note t = color_mask_stack [OF a, of "[Push 7, Push 3, Pop]" "[7]" J_new
      "\<lparr>is_uid = 1, instructions = []\<rparr>" "J_buildStart J_new" 7]
  from t o have "\<exists>J1 U1 r1. J_run (J_buildStart J_new) [Push 7, Push 3, Pop]
        (Ue_buildStart (Ue_new 16) \<lparr>is_uid = 1, instructions = []\<rparr>) \<lparr>is_uid = 1, instructions = []\<rparr>
          = Inr (J1, U1, r1) \<and> currentColor J1 = Some (foldl (AND) 15 [7])"
    by blast
  then have p1: "\<exists>J1 U1 r1. J_run (J_buildStart J_new) [Push 7, Push 3, Pop]
        (Ue_buildStart (Ue_new 16) \<lparr>is_uid = 1, instructions = []\<rparr>) \<lparr>is_uid = 1, instructions = []\<rparr>
          = Inr (J1, U1, r1) \<and> currentColor J1 = Some 7"
    unfolding f .
  from t c have "\<exists>J1 U1 r1. J_push (J_buildStart J_new) 7
        (Ue_buildStart (Ue_new 16) \<lparr>is_uid = 1, instructions = []\<rparr>) \<lparr>is_uid = 1, instructions = []\<rparr>
          = Inr (J1, U1, r1) \<and>
        (\<exists>J2 U2 r2. J_pop J1 U1 r1 = Inr (J2, U2, r2) \<and> currentColor J2 = currentColor (J_buildStart J_new))"
    by blast
  then have p2: "\<exists>J1 U1 r1. J_push (J_buildStart J_new) 7
        (Ue_buildStart (Ue_new 16) \<lparr>is_uid = 1, instructions = []\<rparr>) \<lparr>is_uid = 1, instructions = []\<rparr>
          = Inr (J1, U1, r1) \<and>
        (\<exists>J2 U2 r2. J_pop J1 U1 r1 = Inr (J2, U2, r2) \<and> currentColor J2 = Some 15)"
    unfolding k .
  from a o p1 p2 show ?thesis by (intro conjI)
qed

section \<open>Propagated alpha and the packed color\<close>










end
